theory Spec2Isabelle
  imports Complex_Main "HOL-Library.Sublist" "HOL-Library.Product_Lexorder"
begin

section \<open>Skill-gap analysis: an embedding of app.py\<close>

text \<open>
  The four pandas data frames are lists of rows in load order. A text cell that pandas
  read as a missing value (NaN, a float) is \<open>None\<close>; a text cell holding a string is
  \<open>Some s\<close>. Strings are \<open>string\<close>, read as ASCII text: \<open>lower\<close> maps the letters A to Z
  and leaves every other character alone, and the whitespace that \<open>strip\<close> removes is the
  ASCII whitespace of Python's \<open>str.strip()\<close>. Numbers (hours, hours per day, ratings)
  are exact rationals, so the rounding of binary floating point is not part of the model,
  and neither is a NaN in a numeric column. A text column with rows holds at least one
  string, as the \<open>.str\<close> accessor of pandas requires.
\<close>

subsection \<open>Python strings\<close>

definition lower_char :: "char \<Rightarrow> char" where
  "lower_char c =
     (case map_of (zip ''ABCDEFGHIJKLMNOPQRSTUVWXYZ'' ''abcdefghijklmnopqrstuvwxyz'') c of
        Some d \<Rightarrow> d
      | None \<Rightarrow> c)"

definition lower :: "string \<Rightarrow> string" where
  "lower s = map lower_char s"

definition is_space :: "char \<Rightarrow> bool" where
  "is_space c \<longleftrightarrow>
     c \<in> set [CHR 0x09, CHR 0x0A, CHR 0x0B, CHR 0x0C, CHR 0x0D,
              CHR 0x1C, CHR 0x1D, CHR 0x1E, CHR 0x1F, CHR '' '']"

definition strip :: "string \<Rightarrow> string" where
  "strip s = rev (dropWhile is_space (rev (dropWhile is_space s)))"

text \<open>\<open>s.split(",")\<close>: one piece per comma plus one, empty pieces kept.\<close>

fun split_comma :: "string \<Rightarrow> string list" where
  "split_comma [] = [[]]"
| "split_comma (c # cs) =
     (if c = CHR '','' then [] # split_comma cs
      else (case split_comma cs of
              [] \<Rightarrow> [[c]]
            | p # ps \<Rightarrow> (c # p) # ps))"

text \<open>\<open>p in s\<close> on two strings: \<open>p\<close> occurs in \<open>s\<close> as a contiguous substring.\<close>

fun str_in :: "string \<Rightarrow> string \<Rightarrow> bool" where
  "str_in p [] \<longleftrightarrow> p = []"
| "str_in p (c # cs) \<longleftrightarrow> prefix p (c # cs) \<or> str_in p cs"

subsection \<open>Utility: \<open>parse_skills\<close>\<close>

text \<open>
  \<^verbatim>\<open>
  def parse_skills(skill_text):
      if not isinstance(skill_text, str) or not skill_text.strip():
          return []
      return [s.strip().lower() for s in skill_text.split(",")]
  \<close>
\<close>

definition parse_skills :: "string option \<Rightarrow> string list" where
  "parse_skills skill_text =
     (case skill_text of
        None \<Rightarrow> []
      | Some t \<Rightarrow>
          if strip t = [] then []
          else map (\<lambda>s. lower (strip s)) (split_comma t))"

subsection \<open>Exceptions\<close>

datatype py_error =
    TypeError  \<comment> \<open>\<open>skill.lower() in s\<close> where \<open>s\<close> is a missing cell (a float)\<close>
  | ReError    \<comment> \<open>\<open>re.error\<close>: the pattern does not compile\<close>

subsection \<open>\<open>Series.str.contains(pat, na=False)\<close>\<close>

text \<open>
  pandas calls \<open>str.contains\<close> with \<open>regex=True\<close> unless told otherwise, and the source
  does not pass \<open>regex=False\<close>: the argument is compiled by \<open>re.compile\<close> and every string
  cell is tested with \<open>re.search\<close>; a missing cell gives \<open>False\<close> (\<open>na=False\<close>).

  The regular expressions made of ordinary characters and the dot are modelled here:
  an ordinary character matches itself, the dot matches every character but the newline.
  What \<open>re\<close> does with any other pattern (whether it compiles, and what it matches) is
  the parameter \<open>re\<close> of the functions below.
\<close>

definition re_special :: "char list" where
  "re_special = ''.^$*+?{}[]|()'' @ [CHR 0x5C]"

fun dot_match :: "string \<Rightarrow> string \<Rightarrow> bool" where
  "dot_match [] s \<longleftrightarrow> True"
| "dot_match (p # ps) [] \<longleftrightarrow> False"
| "dot_match (p # ps) (c # cs) \<longleftrightarrow>
     (if p = CHR ''.'' then c \<noteq> CHR 0x0A else p = c) \<and> dot_match ps cs"

fun dot_search :: "string \<Rightarrow> string \<Rightarrow> bool" where
  "dot_search p [] \<longleftrightarrow> dot_match p []"
| "dot_search p (c # cs) \<longleftrightarrow> dot_match p (c # cs) \<or> dot_search p cs"

type_synonym regex_engine = "string \<Rightarrow> py_error + (string \<Rightarrow> bool)"

definition re_compile :: "regex_engine \<Rightarrow> string \<Rightarrow> py_error + (string \<Rightarrow> bool)" where
  "re_compile re pat =
     (if list_all (\<lambda>c. c \<notin> set re_special \<or> c = CHR ''.'') pat then Inr (dot_search pat)
      else re pat)"

subsection \<open>Gap analysis: \<open>find_missing_skills\<close>\<close>

text \<open>A row of \<open>job_details_df\<close>: the columns "Job Title" and "Skill Requirements".\<close>

record job =
  job_title :: "string option"
  skill_requirements :: "string option"

text \<open>\<open>job_details_df["Job Title"].str.lower() == target_job.lower()\<close>, at one row.\<close>

definition title_equals :: "string \<Rightarrow> job \<Rightarrow> bool" where
  "title_equals target_job j =
     (case job_title j of None \<Rightarrow> False | Some t \<Rightarrow> lower t = lower target_job)"

text \<open>
  \<open>job_details_df[job_details_df["Job Title"].str.lower().str.contains(target_job.lower(), na=False)]\<close>
\<close>

definition title_contains :: "regex_engine \<Rightarrow> job list \<Rightarrow> string \<Rightarrow> py_error + job list" where
  "title_contains re jobs target_job =
     (case re_compile re (lower target_job) of
        Inl e \<Rightarrow> Inl e
      | Inr matches \<Rightarrow>
          Inr (filter (\<lambda>j. case job_title j of None \<Rightarrow> False | Some t \<Rightarrow> matches (lower t)) jobs))"

text \<open>
  \<^verbatim>\<open>
  def find_missing_skills(target_job, current_skills):
      job_row = job_details_df[job_details_df["Job Title"].str.lower() == target_job.lower()]
      if job_row.empty:
          job_row = job_details_df[job_details_df["Job Title"].str.lower()
                                       .str.contains(target_job.lower(), na=False)]
      if job_row.empty:
          return None, None, None, None
      job_row = job_row.iloc[0]
      required_skills = parse_skills(job_row["Skill Requirements"])
      user_skills = parse_skills(current_skills)
      missing = [s for s in required_skills if s not in user_skills]
      matched = [s for s in required_skills if s in user_skills]
      return job_row["Job Title"], required_skills, matched, missing
  \<close>
  The four \<open>None\<close>s are the result \<open>None\<close>; a resolved job gives
  \<open>Some (title, required, matched, missing)\<close>.
\<close>

type_synonym gap = "string option \<times> string list \<times> string list \<times> string list"

definition select_rows :: "regex_engine \<Rightarrow> job list \<Rightarrow> string \<Rightarrow> py_error + job list" where
  "select_rows re jobs target_job =
     (let job_row = filter (title_equals target_job) jobs
      in if job_row = [] then title_contains re jobs target_job else Inr job_row)"

definition gap_of_row :: "job \<Rightarrow> string option \<Rightarrow> gap" where
  "gap_of_row job_row current_skills =
     (let required_skills = parse_skills (skill_requirements job_row);
          user_skills = parse_skills current_skills;
          missing = filter (\<lambda>s. s \<notin> set user_skills) required_skills;
          matched = filter (\<lambda>s. s \<in> set user_skills) required_skills
      in (job_title job_row, required_skills, matched, missing))"

definition find_missing_skills ::
  "regex_engine \<Rightarrow> job list \<Rightarrow> string \<Rightarrow> string option \<Rightarrow> py_error + gap option" where
  "find_missing_skills re jobs target_job current_skills =
     (case select_rows re jobs target_job of
        Inl e \<Rightarrow> Inl e
      | Inr [] \<Rightarrow> Inr None
      | Inr (job_row # _) \<Rightarrow> Inr (Some (gap_of_row job_row current_skills)))"

subsection \<open>Duration estimate: \<open>calculate_total_duration\<close>\<close>

text \<open>
  A row of \<open>skill_time_df\<close>: the columns "Skill Name" and
  "Estimated Completion Time (hours)".
\<close>

record skill_time =
  skill_name :: "string option"
  hours :: rat

text \<open>
  A Python \<open>dict\<close> as the list of its items in insertion order; \<open>d[k] = v\<close> replaces the
  value of a key that is present, in place, and appends a new key.
\<close>

fun dict_set :: "('k \<times> 'v) list \<Rightarrow> 'k \<Rightarrow> 'v \<Rightarrow> ('k \<times> 'v) list" where
  "dict_set [] k v = [(k, v)]"
| "dict_set ((k', v') # d) k v =
     (if k' = k then (k', v) # d else (k', v') # dict_set d k v)"

text \<open>\<open>skill_time_df[skill_time_df["Skill Name"].str.lower() == skill.lower()]\<close>\<close>

definition skill_rows :: "skill_time list \<Rightarrow> string \<Rightarrow> skill_time list" where
  "skill_rows durs skill =
     filter (\<lambda>r. case skill_name r of None \<Rightarrow> False | Some n \<Rightarrow> lower n = lower skill) durs"

text \<open>One turn of \<open>for skill in missing_skills\<close>, on the pair \<open>(total_hours, skill_hours)\<close>.\<close>

definition duration_step ::
  "skill_time list \<Rightarrow> rat \<times> (string \<times> rat option) list \<Rightarrow> string
     \<Rightarrow> rat \<times> (string \<times> rat option) list" where
  "duration_step durs st skill =
     (case st of (total_hours, skill_hours) \<Rightarrow>
        (case skill_rows durs skill of
           row # _ \<Rightarrow> (total_hours + hours row, dict_set skill_hours skill (Some (hours row)))
         | [] \<Rightarrow> (total_hours, dict_set skill_hours skill None)))"

text \<open>\<open>round(x, 1)\<close>: to the nearest tenth, a tie to the even neighbour.\<close>

definition round_half_even :: "rat \<Rightarrow> int" where
  "round_half_even x =
     (let f = \<lfloor>x\<rfloor>; d = x - of_int f
      in if d < 1 / 2 then f
         else if 1 / 2 < d then f + 1
         else if even f then f else f + 1)"

definition round1 :: "rat \<Rightarrow> rat" where
  "round1 x = of_int (round_half_even (x * 10)) / 10"

text \<open>
  \<^verbatim>\<open>
  def calculate_total_duration(missing_skills, hours_per_day=2):
      total_hours = 0
      skill_hours = {}
      for skill in missing_skills:
          row = skill_time_df[skill_time_df["Skill Name"].str.lower() == skill.lower()]
          if not row.empty:
              hours = row.iloc[0]["Estimated Completion Time (hours)"]
              skill_hours[skill] = hours
              total_hours += hours
          else:
              skill_hours[skill] = None
      total_days = total_hours / hours_per_day if hours_per_day > 0 else total_hours
      return round(total_days, 1), skill_hours
  \<close>
\<close>

text \<open>The loop, from \<open>total_hours = 0\<close> and \<open>skill_hours = {}\<close>.\<close>

definition duration_loop ::
  "skill_time list \<Rightarrow> string list \<Rightarrow> rat \<times> (string \<times> rat option) list" where
  "duration_loop durs missing_skills = foldl (duration_step durs) (0, []) missing_skills"

definition calculate_total_duration ::
  "skill_time list \<Rightarrow> string list \<Rightarrow> rat \<Rightarrow> rat \<times> (string \<times> rat option) list" where
  "calculate_total_duration durs missing_skills hours_per_day =
     (case duration_loop durs missing_skills of
        (total_hours, skill_hours) \<Rightarrow>
          (let total_days = (if hours_per_day > 0 then total_hours / hours_per_day
                             else total_hours)
           in (round1 total_days, skill_hours)))"

subsection \<open>Course recommendation\<close>

text \<open>
  A row of \<open>professional_df\<close>; a row of \<open>foundation_df\<close> has the column "rating" too.
  The dictionaries that the two recommenders build are the records \<open>suggestion\<close> and
  \<open>rated_suggestion\<close>, their keys prefixed with \<open>s_\<close> where a column has the same name.
\<close>

record course =
  title :: string
  link :: string
  provider :: string
  platform :: string
  credential :: string
  duration :: string
  skills :: "string option"

record rated_course = course +
  rating :: rat

record suggestion =
  s_title :: string
  s_link :: string
  s_provider :: string
  s_platform :: string
  s_credential :: string
  s_duration :: string
  covered_skills :: "string list"
  total_covered :: nat

record rated_suggestion = suggestion +
  s_rating :: rat

text \<open>\<open>lambda s: any(skill.lower() in s for skill in missing_skills)\<close>\<close>

definition any_skill_in :: "string list \<Rightarrow> string \<Rightarrow> bool" where
  "any_skill_in missing_skills s = list_ex (\<lambda>skill. str_in (lower skill) s) missing_skills"

text \<open>
  \<open>df[df["skills"].str.lower().apply(lambda s: ...)]\<close>, for a non-empty \<open>missing_skills\<close>:
  \<open>.str.lower()\<close> leaves a missing cell as it is, and \<open>in\<close> on that float raises
  \<open>TypeError\<close> out of \<open>apply\<close>.
\<close>

definition filter_courses ::
  "string list \<Rightarrow> ('a course_scheme) list \<Rightarrow> py_error + ('a course_scheme) list" where
  "filter_courses missing_skills df =
     (if list_ex (\<lambda>c. skills c = None) df then Inl TypeError
      else Inr (filter (\<lambda>c. case skills c of
                                None \<Rightarrow> False
                              | Some s \<Rightarrow> any_skill_in missing_skills (lower s)) df))"

text \<open>
  \<open>course_skill_set = set(parse_skills(course["skills"]))\<close> and
  \<open>covered_skills = [s for s in missing_skills if s in course_skill_set]\<close>
\<close>

definition covered :: "string list \<Rightarrow> 'a course_scheme \<Rightarrow> string list" where
  "covered missing_skills c =
     filter (\<lambda>s. s \<in> set (parse_skills (skills c))) missing_skills"

definition professional_entry :: "string list \<Rightarrow> course \<Rightarrow> suggestion" where
  "professional_entry missing_skills c =
     \<lparr>s_title = title c, s_link = link c, s_provider = provider c,
      s_platform = platform c, s_credential = credential c, s_duration = duration c,
      covered_skills = covered missing_skills c,
      total_covered = length (covered missing_skills c)\<rparr>"

definition foundation_entry :: "string list \<Rightarrow> rated_course \<Rightarrow> rated_suggestion" where
  "foundation_entry missing_skills c =
     \<lparr>s_title = title c, s_link = link c, s_provider = provider c,
      s_platform = platform c, s_credential = credential c, s_duration = duration c,
      covered_skills = covered missing_skills c,
      total_covered = length (covered missing_skills c),
      s_rating = rating c\<rparr>"

text \<open>
  \<open>xs.sort(key=..., reverse=True)\<close>: descending by key and stable, that is, entries with
  equal keys stay in the order they had. An entry is put in front of the sorted entries
  that came after it, behind those with a strictly greater key. The keys are compared
  with \<open><\<close>; on the tuples \<open>(total_covered, rating)\<close> that is the lexicographic order, in
  which the first components that differ decide.
\<close>

fun insert_desc :: "('a \<Rightarrow> 'k::linorder) \<Rightarrow> 'a \<Rightarrow> 'a list \<Rightarrow> 'a list" where
  "insert_desc key x [] = [x]"
| "insert_desc key x (y # ys) =
     (if key x < key y then y # insert_desc key x ys else x # y # ys)"

definition sort_reverse :: "('a \<Rightarrow> 'k::linorder) \<Rightarrow> 'a list \<Rightarrow> 'a list" where
  "sort_reverse key xs = foldr (insert_desc key) xs []"

text \<open>\<open>xs[:limit]\<close>; a negative \<open>limit\<close> counts from the end.\<close>

definition slice_to :: "'a list \<Rightarrow> int \<Rightarrow> 'a list" where
  "slice_to xs limit =
     (if 0 \<le> limit then take (nat limit) xs
      else take (length xs - nat (- limit)) xs)"

text \<open>
  \<^verbatim>\<open>
  def suggest_professional_courses(missing_skills, limit=4):
      if not missing_skills:
          return []
      filtered = professional_df[professional_df["skills"].str.lower().apply(
              lambda s: any(skill.lower() in s for skill in missing_skills))]
      updated_courses = []
      for _, course in filtered.iterrows():
          course_skill_set = set(parse_skills(course["skills"]))
          covered_skills = [s for s in missing_skills if s in course_skill_set]
          updated_courses.append({..., "covered_skills": covered_skills,
                                  "total_covered": len(covered_skills)})
      updated_courses.sort(key=lambda c: c["total_covered"], reverse=True)
      return updated_courses[:limit]
  \<close>
\<close>

definition suggest_professional_courses ::
  "course list \<Rightarrow> string list \<Rightarrow> int \<Rightarrow> py_error + suggestion list" where
  "suggest_professional_courses professional_df missing_skills limit =
     (if missing_skills = [] then Inr []
      else (case filter_courses missing_skills professional_df of
              Inl e \<Rightarrow> Inl e
            | Inr filtered \<Rightarrow>
                (let updated_courses = map (professional_entry missing_skills) filtered
                 in Inr (slice_to (sort_reverse total_covered updated_courses) limit))))"

text \<open>
  \<open>suggest_foundation_courses\<close> is the same function over \<open>foundation_df\<close>, but for the
  key "rating" of each entry and the line
  \<^verbatim>\<open>updated_courses.sort(key=lambda c: (c["total_covered"], c["rating"]), reverse=True)\<close>
\<close>

definition suggest_foundation_courses ::
  "rated_course list \<Rightarrow> string list \<Rightarrow> int \<Rightarrow> py_error + rated_suggestion list" where
  "suggest_foundation_courses foundation_df missing_skills limit =
     (if missing_skills = [] then Inr []
      else (case filter_courses missing_skills foundation_df of
              Inl e \<Rightarrow> Inl e
            | Inr filtered \<Rightarrow>
                (let updated_courses = map (foundation_entry missing_skills) filtered
                 in Inr (slice_to
                           (sort_reverse (\<lambda>c. (total_covered c, s_rating c))
                              updated_courses)
                           limit))))"

subsection \<open>The route \<open>POST /\<close>\<close>

text \<open>
  The context handed to \<open>result.html\<close>, or the page with the error message
  "Job not found in file database.".
\<close>

record result_page =
  p_target_job :: string
  p_required :: "string list"
  p_matched :: "string list"
  p_missing :: "string list"
  p_total_days :: rat
  p_skill_hours :: "(string \<times> rat option) list"
  p_hours_per_day :: rat
  p_professional_courses :: "suggestion list"
  p_foundation_courses :: "rated_suggestion list"

datatype response = JobNotFound | Result result_page

text \<open>
  \<^verbatim>\<open>
  job_id, required, matched, missing = find_missing_skills(target_job, current_skills)
  if not required:
      return render_template("result.html", error="... Job not found in file database.")
  total_days, skill_hours = calculate_total_duration(missing, hours_per_day)
  professional_courses = suggest_professional_courses(missing)
  foundation_courses = suggest_foundation_courses(missing)
  return render_template("result.html", target_job=target_job, required=required, ...)
  \<close>
  \<open>not required\<close> holds of \<open>None\<close> and of the empty list. The form fields arrive as the
  strings \<open>target_job\<close> and \<open>current_skills\<close>; \<open>hours_per_day\<close> is the number that
  \<open>float(...)\<close> read.
\<close>

definition index_post ::
  "regex_engine \<Rightarrow> job list \<Rightarrow> skill_time list \<Rightarrow> course list \<Rightarrow> rated_course list
     \<Rightarrow> string \<Rightarrow> string \<Rightarrow> rat \<Rightarrow> py_error + response" where
  "index_post re job_details_df skill_time_df professional_df foundation_df
       target_job current_skills hours_per_day =
     (case find_missing_skills re job_details_df target_job (Some current_skills) of
        Inl e \<Rightarrow> Inl e
      | Inr None \<Rightarrow> Inr JobNotFound
      | Inr (Some (job_id, required, matched, missing)) \<Rightarrow>
          if required = [] then Inr JobNotFound
          else
            (case calculate_total_duration skill_time_df missing hours_per_day of
               (total_days, skill_hours) \<Rightarrow>
                 (case suggest_professional_courses professional_df missing 4 of
                    Inl e \<Rightarrow> Inl e
                  | Inr professional_courses \<Rightarrow>
                      (case suggest_foundation_courses foundation_df missing 4 of
                         Inl e \<Rightarrow> Inl e
                       | Inr foundation_courses \<Rightarrow>
                           Inr (Result
                             \<lparr>p_target_job = target_job, p_required = required,
                              p_matched = matched, p_missing = missing,
                              p_total_days = total_days, p_skill_hours = skill_hours,
                              p_hours_per_day = hours_per_day,
                              p_professional_courses = professional_courses,
                              p_foundation_courses = foundation_courses\<rparr>)))))"

subsection \<open>Reference definitions\<close>

text \<open>
  The specification's wording, to compare the code with: a job is resolved by the first
  title equal to the target ignoring case and, only if there is none, by the first title
  that contains the target ignoring case.
\<close>

definition resolve_job :: "job list \<Rightarrow> string \<Rightarrow> job option" where
  "resolve_job jobs target_job =
     (case List.find (title_equals target_job) jobs of
        Some j \<Rightarrow> Some j
      | None \<Rightarrow>
          List.find (\<lambda>j. case job_title j of
                            None \<Rightarrow> False
                          | Some t \<Rightarrow> str_in (lower target_job) (lower t)) jobs)"

text \<open>
  The estimated hours of a skill: those of the first entry of the durations whose name
  equals the skill's ignoring case, if there is one. The total is the sum over the list
  of missing skills, an unknown skill counting 0.
\<close>

definition known_hours :: "skill_time list \<Rightarrow> string \<Rightarrow> rat option" where
  "known_hours durs skill =
     (case List.find (\<lambda>r. case skill_name r of
                              None \<Rightarrow> False
                            | Some n \<Rightarrow> lower n = lower skill) durs of
        None \<Rightarrow> None
      | Some r \<Rightarrow> Some (hours r))"

definition total_hours_spec :: "skill_time list \<Rightarrow> string list \<Rightarrow> rat" where
  "total_hours_spec durs missing_skills =
     sum_list (map (\<lambda>s. case known_hours durs s of None \<Rightarrow> 0 | Some h \<Rightarrow> h) missing_skills)"

text \<open>The sum of the values of a \<open>skill_hours\<close> dictionary that are not \<open>None\<close>.\<close>

definition non_null_sum :: "(string \<times> rat option) list \<Rightarrow> rat" where
  "non_null_sum skill_hours =
     sum_list (map (\<lambda>kv. case snd kv of None \<Rightarrow> 0 | Some h \<Rightarrow> h) skill_hours)"

subsection \<open>Example data\<close>

text \<open>Small data frames on which the theorems below are run.\<close>

definition example_course :: "string \<Rightarrow> string \<Rightarrow> course" where
  "example_course t s =
     \<lparr>title = t, link = ''l'', provider = ''p'', platform = ''f'', credential = ''c'',
      duration = ''d'', skills = Some s\<rparr>"

definition example_rated_course :: "string \<Rightarrow> string \<Rightarrow> rat \<Rightarrow> rated_course" where
  "example_rated_course t s r =
     \<lparr>title = t, link = ''l'', provider = ''p'', platform = ''f'', credential = ''c'',
      duration = ''d'', skills = Some s, rating = r\<rparr>"

definition example_professional_df :: "course list" where
  "example_professional_df =
     [example_course ''A'' ''SQL'', example_course ''B'' ''sql, excel'',
      example_course ''C'' ''Excel, MySQL'']"

definition example_foundation_df :: "rated_course list" where
  "example_foundation_df =
     [example_rated_course ''A'' ''SQL'' 4, example_rated_course ''B'' ''sql'' 5,
      example_rated_course ''C'' ''sql, excel'' 3]"

section \<open>Properties\<close>

subsection \<open>Strings\<close>

lemma lower_eq_Nil [simp]: "lower s = [] \<longleftrightarrow> s = []"
  by (simp add: lower_def)

lemma Nil_eq_lower [simp]: "[] = lower s \<longleftrightarrow> s = []"
  by (simp add: lower_def)

lemma split_comma_not_Nil [simp]: "split_comma s \<noteq> []"
  by (induction s) (auto split: list.splits)


lemma str_in_iff: "str_in p s \<longleftrightarrow> (\<exists>xs ys. s = xs @ p @ ys)"
proof (induction s)
  case Nil
  then show ?case by auto
next
  case (Cons c cs)
  show ?case
  proof
    assume "str_in p (c # cs)"
    then consider "prefix p (c # cs)" | "str_in p cs" by auto
    then show "\<exists>xs ys. c # cs = xs @ p @ ys"
    proof cases
      case 1
      then obtain ys where "c # cs = p @ ys" by (auto simp: prefix_def)
      then have "c # cs = [] @ p @ ys" by simp
      then show ?thesis by blast
    next
      case 2
      with Cons obtain xs ys where "cs = xs @ p @ ys" by blast
      then have "c # cs = (c # xs) @ p @ ys" by simp
      then show ?thesis by blast
    qed
  next
    assume "\<exists>xs ys. c # cs = xs @ p @ ys"
    then obtain xs ys where eq: "c # cs = xs @ p @ ys" by blast
    show "str_in p (c # cs)"
    proof (cases xs)
      case Nil
      with eq have "prefix p (c # cs)" by (simp add: prefix_def)
      then show ?thesis by simp
    next
      case (Cons x xs')
      with eq have "cs = xs' @ p @ ys" by simp
      with Cons.IH have "str_in p cs" by blast
      then show ?thesis by simp
    qed
  qed
qed

subsection \<open>C5: tokens of \<open>parse_skills\<close>\<close>




subsection \<open>Job lookup\<close>

lemma find_filter: "List.find P xs = (case filter P xs of [] \<Rightarrow> None | x # _ \<Rightarrow> Some x)"
  by (induction xs) auto

lemma dot_match_literal: "CHR ''.'' \<notin> set p \<Longrightarrow> dot_match p s \<longleftrightarrow> prefix p s"
  by (induction p s rule: dot_match.induct) auto

lemma dot_search_literal: "CHR ''.'' \<notin> set p \<Longrightarrow> dot_search p s \<longleftrightarrow> str_in p s"
  by (induction s) (auto simp: dot_match_literal)

lemma re_compile_literal:
  "list_all (\<lambda>c. c \<notin> set re_special) pat \<Longrightarrow> re_compile re pat = Inr (dot_search pat)"
  by (auto simp: re_compile_def list_all_iff)

lemma not_special_no_dot: "list_all (\<lambda>c. c \<notin> set re_special) pat \<Longrightarrow> CHR ''.'' \<notin> set pat"
  by (auto simp: list_all_iff re_special_def)

text \<open>
  On a target without any character that is special in a regular expression, the lookup
  is the specification's: exact match first, then containment, the first row in load
  order at either step.
\<close>

lemma find_missing_skills_literal:
  assumes "list_all (\<lambda>c. c \<notin> set re_special) (lower target_job)"
  shows "find_missing_skills re jobs target_job current_skills =
           Inr (map_option (\<lambda>j. gap_of_row j current_skills) (resolve_job jobs target_job))"
proof -
  have "title_contains re jobs target_job =
          Inr (filter (\<lambda>j. case job_title j of None \<Rightarrow> False
                             | Some t \<Rightarrow> str_in (lower target_job) (lower t)) jobs)"
    using assms
    by (simp add: title_contains_def re_compile_literal dot_search_literal not_special_no_dot
        cong: option.case_cong)
  then show ?thesis
    by (auto simp: find_missing_skills_def select_rows_def resolve_job_def find_filter Let_def
        split: list.splits)
qed

text \<open>An exact match wins whatever the target is, and the pattern is not even compiled.\<close>

lemma find_missing_skills_exact:
  assumes "List.find (title_equals target_job) jobs = Some j"
  shows "find_missing_skills re jobs target_job current_skills =
           Inr (Some (gap_of_row j current_skills))"
  using assms
  by (auto simp: find_missing_skills_def select_rows_def find_filter Let_def split: list.splits)

subsection \<open>C1: matched and missing partition the required skills\<close>

text \<open>
  C1: when \<open>find_missing_skills\<close> resolves a job, the required skills are the parsed
  requirements of a row of the data set, \<open>matched\<close> is the required skills that are among
  the parsed user skills and \<open>missing\<close> those that are not, each in the order of
  \<open>required\<close>; every required skill is in exactly one of the two, they are disjoint and
  together they are the required skills.
\<close>

theorem find_missing_skills_partition:
  assumes "find_missing_skills re jobs target_job current_skills =
             Inr (Some (t, required, matched, missing))"
  shows "(\<exists>j \<in> set jobs. t = job_title j \<and> required = parse_skills (skill_requirements j))
       \<and> matched = filter (\<lambda>s. s \<in> set (parse_skills current_skills)) required
       \<and> missing = filter (\<lambda>s. s \<notin> set (parse_skills current_skills)) required
       \<and> (\<forall>s \<in> set required. (s \<in> set matched) \<noteq> (s \<in> set missing))
       \<and> set matched \<inter> set missing = {}
       \<and> set matched \<union> set missing = set required
       \<and> subseq matched required \<and> subseq missing required"
proof -
  from assms obtain j js where rows: "select_rows re jobs target_job = Inr (j # js)"
    and g: "gap_of_row j current_skills = (t, required, matched, missing)"
    by (auto simp: find_missing_skills_def split: sum.splits list.splits)
  from rows obtain P where "filter P jobs = j # js"
    by (auto simp: select_rows_def title_contains_def Let_def split: if_splits sum.splits)
  then have "j \<in> set (filter P jobs)" by simp
  then have "j \<in> set jobs" by simp
  with g show ?thesis
    by (auto simp: gap_of_row_def Let_def)
qed

theorem find_missing_skills_partition_witness:
  "find_missing_skills (\<lambda>p. Inl ReError)
     [\<lparr>job_title = Some ''Data Analyst'', skill_requirements = Some ''sql, excel, python''\<rparr>]
     ''data analyst'' (Some ''SQL, Power BI'')
   = Inr (Some (Some ''Data Analyst'', [''sql'', ''excel'', ''python''], [''sql''],
                [''excel'', ''python'']))
   \<and> set [''sql''] \<inter> set [''excel'', ''python''] = {}
   \<and> set [''sql''] \<union> set [''excel'', ''python''] = set [''sql'', ''excel'', ''python'']
   \<and> subseq [''sql''] [''sql'', ''excel'', ''python'']
   \<and> subseq [''excel'', ''python''] [''sql'', ''excel'', ''python'']"
proof -
  have h: "find_missing_skills (\<lambda>p. Inl ReError)
     [\<lparr>job_title = Some ''Data Analyst'', skill_requirements = Some ''sql, excel, python''\<rparr>]
     ''data analyst'' (Some ''SQL, Power BI'')
   = Inr (Some (Some ''Data Analyst'', [''sql'', ''excel'', ''python''], [''sql''],
                [''excel'', ''python'']))"
    by code_simp
  from find_missing_skills_partition [OF h] h show ?thesis by blast
qed

subsection \<open>The duration loop\<close>

lemma known_hours_rows:
  "known_hours durs s = (case skill_rows durs s of [] \<Rightarrow> None | r # _ \<Rightarrow> Some (hours r))"
  by (simp add: known_hours_def skill_rows_def find_filter split: list.splits)

lemma duration_step_eq:
  "duration_step durs (t, d) s =
     (t + (case known_hours durs s of None \<Rightarrow> 0 | Some h \<Rightarrow> h), dict_set d s (known_hours durs s))"
  by (simp add: duration_step_def known_hours_rows split: list.splits)

lemma map_of_dict_set: "map_of (dict_set d k v) = (map_of d)(k \<mapsto> v)"
  by (induction d k v rule: dict_set.induct) auto

lemma keys_dict_set:
  "map fst (dict_set d k v) = (if k \<in> fst ` set d then map fst d else map fst d @ [k])"
  by (induction d k v rule: dict_set.induct) auto

lemma keyset_dict_set: "fst ` set (dict_set d k v) = insert k (fst ` set d)"
  by (induction d k v rule: dict_set.induct) auto

lemma distinct_dict_set: "distinct (map fst d) \<Longrightarrow> distinct (map fst (dict_set d k v))"
  by (simp add: keys_dict_set)

lemma foldl_duration_total:
  "fst (foldl (duration_step durs) (t, d) xs) = t + total_hours_spec durs xs"
  by (induction xs arbitrary: t d) (simp_all add: duration_step_eq total_hours_spec_def)

lemma foldl_duration_map:
  "map_of (snd (foldl (duration_step durs) (t, d) xs)) s =
     (if s \<in> set xs then Some (known_hours durs s) else map_of d s)"
  by (induction xs arbitrary: t d) (simp_all add: duration_step_eq map_of_dict_set)

lemma foldl_duration_keys:
  "distinct (map fst d) \<Longrightarrow>
   distinct (map fst (snd (foldl (duration_step durs) (t, d) xs)))
   \<and> set (map fst (snd (foldl (duration_step durs) (t, d) xs))) = fst ` set d \<union> set xs"
proof (induction xs arbitrary: t d)
  case Nil
  then show ?case by simp
next
  case (Cons x xs)
  have "distinct (map fst (dict_set d x (known_hours durs x)))"
    using Cons.prems by (rule distinct_dict_set)
  from Cons.IH [OF this] show ?case
    by (simp add: duration_step_eq keyset_dict_set)
qed

subsection \<open>Rounding to one decimal place\<close>







subsection \<open>C3: the duration estimate\<close>

lemma calculate_fst:
  "fst (calculate_total_duration durs missing hpd) =
     round1 (if 0 < hpd then total_hours_spec durs missing / hpd else total_hours_spec durs missing)"
proof -
  have "fst (duration_loop durs missing) = total_hours_spec durs missing"
    by (simp add: duration_loop_def foldl_duration_total)
  then show ?thesis
    by (cases "duration_loop durs missing") (simp add: calculate_total_duration_def Let_def)
qed

lemma calculate_snd:
  "snd (calculate_total_duration durs missing hpd) = snd (duration_loop durs missing)"
  by (simp add: calculate_total_duration_def Let_def split: prod.splits)

lemma duration_loop_map:
  "map_of (snd (duration_loop durs missing)) s =
     (if s \<in> set missing then Some (known_hours durs s) else None)"
  by (simp add: duration_loop_def foldl_duration_map)




subsection \<open>C8: more missing skills never take fewer days\<close>

lemma known_hours_nonneg:
  assumes "\<forall>r \<in> set durs. 0 \<le> hours r" "known_hours durs s = Some h"
  shows "0 \<le> h"
proof -
  from assms(2) have "\<exists>r \<in> set durs. h = hours r"
    by (auto simp: known_hours_def find_Some_iff split: option.splits)
  with assms(1) show ?thesis by auto
qed

lemma total_hours_spec_insert:
  "total_hours_spec durs (xs @ s # ys) =
     total_hours_spec durs (xs @ ys) + (case known_hours durs s of None \<Rightarrow> 0 | Some h \<Rightarrow> h)"
  by (simp add: total_hours_spec_def)



subsection \<open>C10: a skill listed twice\<close>

lemma duration_loop_snoc:
  "duration_loop durs (xs @ [x]) = duration_step durs (duration_loop durs xs) x"
  by (simp add: duration_loop_def)

lemma duration_loop_keys:
  "distinct (map fst (snd (duration_loop durs xs)))
   \<and> fst ` set (snd (duration_loop durs xs)) = set xs"
  using foldl_duration_keys [of "[]" durs 0 xs] by (simp add: duration_loop_def)

lemma duration_loop_total: "fst (duration_loop durs xs) = total_hours_spec durs xs"
  by (simp add: duration_loop_def foldl_duration_total)

lemma dict_set_present: "map_of d k = Some v \<Longrightarrow> dict_set d k v = d"
  by (induction d k v rule: dict_set.induct) (auto split: if_splits)

lemma dict_set_absent: "k \<notin> fst ` set d \<Longrightarrow> dict_set d k v = d @ [(k, v)]"
  by (induction d k v rule: dict_set.induct) auto

lemma non_null_sum_snoc:
  "non_null_sum (snd (duration_loop durs (xs @ [x]))) =
     non_null_sum (snd (duration_loop durs xs))
       + (if x \<in> set xs then 0 else (case known_hours durs x of None \<Rightarrow> 0 | Some h \<Rightarrow> h))"
proof (cases "x \<in> set xs")
  case True
  then have "map_of (snd (duration_loop durs xs)) x = Some (known_hours durs x)"
    by (simp add: duration_loop_map)
  then have "dict_set (snd (duration_loop durs xs)) x (known_hours durs x)
               = snd (duration_loop durs xs)"
    by (rule dict_set_present)
  with True show ?thesis
    by (cases "duration_loop durs xs") (simp add: duration_loop_snoc duration_step_eq)
next
  case False
  then have "x \<notin> fst ` set (snd (duration_loop durs xs))"
    by (simp add: duration_loop_keys)
  then have "dict_set (snd (duration_loop durs xs)) x (known_hours durs x)
               = snd (duration_loop durs xs) @ [(x, known_hours durs x)]"
    by (rule dict_set_absent)
  with False show ?thesis
    by (cases "duration_loop durs xs")
      (simp add: duration_loop_snoc duration_step_eq non_null_sum_def)
qed

lemma gap_snoc:
  "fst (duration_loop durs (xs @ [x])) - non_null_sum (snd (duration_loop durs (xs @ [x]))) =
     fst (duration_loop durs xs) - non_null_sum (snd (duration_loop durs xs))
       + (if x \<in> set xs then (case known_hours durs x of None \<Rightarrow> 0 | Some h \<Rightarrow> h) else 0)"
  by (simp add: non_null_sum_snoc duration_loop_total total_hours_spec_def)

lemma gap_mono:
  assumes "\<forall>r \<in> set durs. 0 \<le> hours r"
  shows "fst (duration_loop durs xs) - non_null_sum (snd (duration_loop durs xs))
           \<le> fst (duration_loop durs (xs @ ys)) - non_null_sum (snd (duration_loop durs (xs @ ys)))"
proof (induction ys rule: rev_induct)
  case Nil
  then show ?case by simp
next
  case (snoc y ys)
  have "0 \<le> (case known_hours durs y of None \<Rightarrow> 0 | Some h \<Rightarrow> h)"
    using known_hours_nonneg [OF assms] by (simp split: option.splits)
  then have "fst (duration_loop durs (xs @ ys)) - non_null_sum (snd (duration_loop durs (xs @ ys)))
      \<le> fst (duration_loop durs ((xs @ ys) @ [y]))
          - non_null_sum (snd (duration_loop durs ((xs @ ys) @ [y])))"
    unfolding gap_snoc by simp
  with snoc.IH show ?case by simp
qed

lemma count_list_split:
  assumes "1 < count_list xs s"
  shows "\<exists>as bs. xs = as @ s # bs \<and> s \<in> set as"
proof -
  from assms have "s \<in> set xs"
    by (metis count_list_0_iff not_one_less_zero)
  then obtain as bs where xs: "xs = as @ s # bs" and "s \<notin> set bs"
    by (meson split_list_last)
  then have "count_list bs s = 0" by (simp add: count_list_0_iff)
  with assms xs have "0 < count_list as s" by simp
  then have "s \<in> set as" by (metis count_list_0_iff less_numeral_extra(3))
  with xs show ?thesis by blast
qed


lemma gap_nonneg:
  assumes "\<forall>r \<in> set durs. 0 \<le> hours r"
  shows "0 \<le> fst (duration_loop durs xs) - non_null_sum (snd (duration_loop durs xs))"
proof -
  have "fst (duration_loop durs []) - non_null_sum (snd (duration_loop durs [])) = 0"
    by (simp add: duration_loop_def non_null_sum_def)
  with gap_mono [OF assms, of "[]" xs] show ?thesis by simp
qed

lemma gap_positive:
  assumes nn: "\<forall>r \<in> set durs. 0 \<le> hours r" and k: "known_hours durs s = Some h"
    and h: "0 < h" and s: "s \<in> set as"
  shows "0 < fst (duration_loop durs (as @ s # bs))
               - non_null_sum (snd (duration_loop durs (as @ s # bs)))"
proof -
  have "fst (duration_loop durs (as @ [s])) - non_null_sum (snd (duration_loop durs (as @ [s])))
          = fst (duration_loop durs as) - non_null_sum (snd (duration_loop durs as)) + h"
    using s k by (simp only: gap_snoc if_True option.case)
  with gap_nonneg [OF nn, of as] h
  have "0 < fst (duration_loop durs (as @ [s]))
              - non_null_sum (snd (duration_loop durs (as @ [s])))"
    by linarith
  also have "\<dots> \<le> fst (duration_loop durs ((as @ [s]) @ bs))
                 - non_null_sum (snd (duration_loop durs ((as @ [s]) @ bs)))"
    by (rule gap_mono [OF nn])
  finally show ?thesis by simp
qed


text \<open>
  C10: a skill with known hours \<open>h\<close> adds \<open>h\<close> to the running total at each of its
  occurrences in the list of missing skills, and that running total is what
  \<open>totalDays\<close> is computed from; the returned mapping has each key once, with the
  value \<open>h\<close> for that skill. So when the hours are non-negative, \<open>h\<close> is positive and the
  skill occurs more than once, the values of the mapping that are not \<open>None\<close> sum to
  strictly less than the total.
\<close>

theorem duplicate_skill_counted:
  assumes "known_hours durs s = Some h"
  shows "fst (duration_loop durs (xs @ s # ys)) = fst (duration_loop durs (xs @ ys)) + h
       \<and> fst (calculate_total_duration durs missing hours_per_day) =
           round1 (if 0 < hours_per_day then fst (duration_loop durs missing) / hours_per_day
                   else fst (duration_loop durs missing))
       \<and> distinct (map fst (snd (calculate_total_duration durs missing hours_per_day)))
       \<and> map_of (snd (calculate_total_duration durs (xs @ s # ys) hours_per_day)) s
           = Some (Some h)
       \<and> ((\<forall>r \<in> set durs. 0 \<le> hours r) \<and> 0 < h \<and> 1 < count_list missing s \<longrightarrow>
            non_null_sum (snd (calculate_total_duration durs missing hours_per_day))
              < fst (duration_loop durs missing))"
proof -
  have a: "fst (duration_loop durs (xs @ s # ys)) = fst (duration_loop durs (xs @ ys)) + h"
    using assms by (simp add: duration_loop_total total_hours_spec_insert)
  have b: "fst (calculate_total_duration durs missing hours_per_day) =
           round1 (if 0 < hours_per_day then fst (duration_loop durs missing) / hours_per_day
                   else fst (duration_loop durs missing))"
    by (simp add: calculate_fst duration_loop_total)
  have c: "distinct (map fst (snd (calculate_total_duration durs missing hours_per_day)))"
    by (simp add: calculate_snd duration_loop_keys)
  have d: "map_of (snd (calculate_total_duration durs (xs @ s # ys) hours_per_day)) s
           = Some (Some h)"
    using assms by (simp add: calculate_snd duration_loop_map)
  have e: "(\<forall>r \<in> set durs. 0 \<le> hours r) \<and> 0 < h \<and> 1 < count_list missing s \<longrightarrow>
            non_null_sum (snd (calculate_total_duration durs missing hours_per_day))
              < fst (duration_loop durs missing)"
  proof (intro impI, elim conjE)
    assume nn: "\<forall>r \<in> set durs. 0 \<le> hours r" and h: "0 < h" and dup: "1 < count_list missing s"
    from count_list_split [OF dup] obtain as bs
      where m: "missing = as @ s # bs" and s: "s \<in> set as"
      by blast
    from gap_positive [OF nn assms h s, of bs] m
    show "non_null_sum (snd (calculate_total_duration durs missing hours_per_day))
              < fst (duration_loop durs missing)"
      by (simp only: calculate_snd)
  qed
  show ?thesis
    by (rule conjI [OF a conjI [OF b conjI [OF c conjI [OF d e]]]])
qed

theorem duplicate_skill_counted_witness:
  "known_hours [\<lparr>skill_name = Some ''SQL'', hours = 10\<rparr>] ''sql'' = Some 10
   \<and> fst (duration_loop [\<lparr>skill_name = Some ''SQL'', hours = 10\<rparr>] [''sql'', ''sql'']) = 20
   \<and> snd (calculate_total_duration [\<lparr>skill_name = Some ''SQL'', hours = 10\<rparr>]
            [''sql'', ''sql''] 2) = [(''sql'', Some 10)]
   \<and> non_null_sum (snd (calculate_total_duration [\<lparr>skill_name = Some ''SQL'', hours = 10\<rparr>]
            [''sql'', ''sql''] 2)) < 20
   \<and> fst (calculate_total_duration [\<lparr>skill_name = Some ''SQL'', hours = 10\<rparr>]
            [''sql'', ''sql''] 2) = 10"
proof -
  let ?durs = "[\<lparr>skill_name = Some ''SQL'', hours = 10\<rparr>]"
  have k: "known_hours ?durs ''sql'' = Some 10"
    by (simp add: known_hours_def lower_def lower_char_def)
  have t: "fst (duration_loop ?durs [''sql'', ''sql'']) = 20"
    by code_simp
  have m: "snd (calculate_total_duration ?durs [''sql'', ''sql''] 2) = [(''sql'', Some 10)]"
    by code_simp
  have r: "round1 (20 / 2) = 10"
    by (simp add: round1_def round_half_even_def)
  have c: "(\<forall>r \<in> set ?durs. 0 \<le> hours r) \<and> (0::rat) < 10
             \<and> 1 < count_list [''sql'', ''sql''] ''sql''" by simp
  note th = duplicate_skill_counted [OF k, of "[]" "[]" "[''sql'', ''sql'']" 2]
  from th have "non_null_sum (snd (calculate_total_duration ?durs [''sql'', ''sql''] 2))
              < fst (duration_loop ?durs [''sql'', ''sql''])"
    using c by blast
  moreover from th have "fst (calculate_total_duration ?durs [''sql'', ''sql''] 2) =
      round1 (fst (duration_loop ?durs [''sql'', ''sql'']) / 2)"
    by simp
  ultimately show ?thesis using k t m r by simp
qed

subsection \<open>Sorting and truncation\<close>

lemma set_insert_desc: "set (insert_desc key x ys) = insert x (set ys)"
  by (induction ys) auto

lemma length_insert_desc: "length (insert_desc key x ys) = Suc (length ys)"
  by (induction ys) auto





lemma set_sort_reverse: "set (sort_reverse key xs) = set xs"
  unfolding sort_reverse_def by (induction xs) (simp_all add: set_insert_desc)

lemma length_sort_reverse: "length (sort_reverse key xs) = length xs"
  unfolding sort_reverse_def by (induction xs) (simp_all add: length_insert_desc)



lemma length_slice_to: "0 \<le> limit \<Longrightarrow> length (slice_to xs limit) \<le> nat limit"
  by (simp add: slice_to_def)



subsection \<open>The recommenders\<close>


lemma filter_courses_total:
  "\<forall>c \<in> set df. skills c \<noteq> None \<Longrightarrow> \<exists>filtered. filter_courses missing df = Inr filtered"
  by (auto simp: filter_courses_def list_ex_iff)

lemma professional_cases:
  assumes "suggest_professional_courses df missing limit = Inr out"
  obtains "missing = []" "out = []"
  | filtered where "missing \<noteq> []" "filter_courses missing df = Inr filtered"
      "out = slice_to (sort_reverse total_covered (map (professional_entry missing) filtered)) limit"
  using assms
  by (auto simp: suggest_professional_courses_def Let_def split: if_splits sum.splits)

lemma foundation_cases:
  assumes "suggest_foundation_courses df missing limit = Inr out"
  obtains "missing = []" "out = []"
  | filtered where "missing \<noteq> []" "filter_courses missing df = Inr filtered"
      "out = slice_to (sort_reverse (\<lambda>c. (total_covered c, s_rating c))
                         (map (foundation_entry missing) filtered)) limit"
  using assms
  by (auto simp: suggest_foundation_courses_def Let_def split: if_splits sum.splits)





subsection \<open>C6: the order of the recommendations\<close>


subsection \<open>C7: at most \<open>limit\<close> recommendations, none without missing skills\<close>

text \<open>
  C7: with no missing skill both recommenders return the empty list whatever the data
  set is, also one on which a scan would raise; for a limit \<open>K \<ge> 0\<close> whatever they return
  has at most \<open>K\<close> entries; and they do return a list whenever every "skills" cell of
  the data set is a string.
\<close>

theorem suggestions_capped:
  "suggest_professional_courses professional_df [] limit = Inr []
   \<and> suggest_foundation_courses foundation_df [] limit = Inr []
   \<and> (0 \<le> limit \<longrightarrow>
        (\<forall>out. suggest_professional_courses professional_df missing limit = Inr out \<longrightarrow>
           length out \<le> nat limit)
        \<and> (\<forall>out. suggest_foundation_courses foundation_df missing limit = Inr out \<longrightarrow>
           length out \<le> nat limit))
   \<and> ((\<forall>c \<in> set professional_df. skills c \<noteq> None) \<longrightarrow>
        (\<exists>out. suggest_professional_courses professional_df missing limit = Inr out))
   \<and> ((\<forall>c \<in> set foundation_df. skills c \<noteq> None) \<longrightarrow>
        (\<exists>out. suggest_foundation_courses foundation_df missing limit = Inr out))"
proof (intro conjI impI allI)
  show "suggest_professional_courses professional_df [] limit = Inr []"
    by (simp add: suggest_professional_courses_def)
  show "suggest_foundation_courses foundation_df [] limit = Inr []"
    by (simp add: suggest_foundation_courses_def)
next
  fix out
  assume "0 \<le> limit" "suggest_professional_courses professional_df missing limit = Inr out"
  then show "length out \<le> nat limit"
    by (auto elim!: professional_cases simp: length_slice_to)
next
  fix out
  assume "0 \<le> limit" "suggest_foundation_courses foundation_df missing limit = Inr out"
  then show "length out \<le> nat limit"
    by (auto elim!: foundation_cases simp: length_slice_to)
next
  assume "\<forall>c \<in> set professional_df. skills c \<noteq> None"
  from filter_courses_total [OF this, of missing]
  show "\<exists>out. suggest_professional_courses professional_df missing limit = Inr out"
    by (auto simp: suggest_professional_courses_def Let_def)
next
  assume "\<forall>c \<in> set foundation_df. skills c \<noteq> None"
  from filter_courses_total [OF this, of missing]
  show "\<exists>out. suggest_foundation_courses foundation_df missing limit = Inr out"
    by (auto simp: suggest_foundation_courses_def Let_def)
qed

subsection \<open>The theorems on the example data\<close>




theorem suggestions_capped_witness:
  "suggest_professional_courses example_professional_df [] 2 = Inr []
   \<and> (0::int) \<le> 2
   \<and> list_all (\<lambda>c. skills c \<noteq> None) example_professional_df
   \<and> (\<exists>out. suggest_professional_courses example_professional_df [''sql'', ''excel''] 2
               = Inr out \<and> length out \<le> 2)
   \<and> list_all (\<lambda>c. skills c \<noteq> None) example_foundation_df
   \<and> (\<exists>out. suggest_foundation_courses example_foundation_df [''sql'', ''excel''] 2
               = Inr out \<and> length out \<le> 2)"
proof -
  have p: "\<forall>c \<in> set example_professional_df. skills c \<noteq> None"
    by (simp add: example_professional_df_def example_course_def)
  have f: "\<forall>c \<in> set example_foundation_df. skills c \<noteq> None"
    by (simp add: example_foundation_df_def example_rated_course_def)
  note th = suggestions_capped [of example_professional_df 2 example_foundation_df
      "[''sql'', ''excel'']"]
  from th p obtain out
    where o: "suggest_professional_courses example_professional_df [''sql'', ''excel''] 2 = Inr out"
    by blast
  from th f obtain fout
    where fo: "suggest_foundation_courses example_foundation_df [''sql'', ''excel''] 2 = Inr fout"
    by blast
  from th o have "length out \<le> 2" by simp
  moreover from th fo have "length fout \<le> 2" by simp
  moreover from th have "suggest_professional_courses example_professional_df [] 2 = Inr []"
    by blast
  ultimately show ?thesis using p f o fo by (simp add: list_all_iff)
qed

subsection \<open>C9: a recommended course that covers nothing\<close>

text \<open>
  C9: there are a course data set and a non-empty list of missing skills for which a
  recommender returns a course with \<open>total_covered = 0\<close>: the skills text "MySQL, Excel"
  contains the missing skill "sql" inside the token "mysql", so the course passes the
  substring filter, but "sql" is not one of its tokens and nothing is covered.
\<close>

theorem zero_coverage_course_returned:
  "suggest_professional_courses [example_course ''Databases'' ''MySQL, Excel''] [''sql''] 4
     = Inr [\<lparr>s_title = ''Databases'', s_link = ''l'', s_provider = ''p'', s_platform = ''f'',
             s_credential = ''c'', s_duration = ''d'', covered_skills = [],
             total_covered = 0\<rparr>]
   \<and> any_skill_in [''sql''] (lower ''MySQL, Excel'')
   \<and> ''sql'' \<notin> set (parse_skills (Some ''MySQL, Excel''))"
  by (simp add: suggest_professional_courses_def filter_courses_def any_skill_in_def
      professional_entry_def covered_def sort_reverse_def slice_to_def example_course_def
      parse_skills_def strip_def is_space_def lower_def lower_char_def Let_def)

theorem zero_coverage_course_returned_witness:
  "\<exists>df missing out c. missing \<noteq> [] \<and> suggest_professional_courses df missing 4 = Inr out
      \<and> c \<in> set out \<and> total_covered c = 0 \<and> covered_skills c = []"
proof -
  from zero_coverage_course_returned
  have "suggest_professional_courses [example_course ''Databases'' ''MySQL, Excel''] [''sql''] 4
     = Inr [\<lparr>s_title = ''Databases'', s_link = ''l'', s_provider = ''p'', s_platform = ''f'',
             s_credential = ''c'', s_duration = ''d'', covered_skills = [],
             total_covered = 0\<rparr>]"
    by blast
  then show ?thesis
    by (intro exI [of _ "[example_course ''Databases'' ''MySQL, Excel'']"] exI [of _ "[''sql'']"]
        exI [of _ "[\<lparr>s_title = ''Databases'', s_link = ''l'', s_provider = ''p'',
             s_platform = ''f'', s_credential = ''c'', s_duration = ''d'', covered_skills = [],
             total_covered = 0\<rparr>]"]
        exI [of _ "\<lparr>s_title = ''Databases'', s_link = ''l'', s_provider = ''p'',
             s_platform = ''f'', s_credential = ''c'', s_duration = ''d'', covered_skills = [],
             total_covered = 0\<rparr>"]) simp
qed

subsection \<open>C2: the fallback is a regular-expression search\<close>

text \<open>
  C2 says that the fallback selects a title that contains the lower-cased target as a
  substring. The code hands the target to \<open>str.contains\<close> as a regular expression: on
  the target "." no title equals it and none contains a dot, so by the claim no job is
  resolved, but the pattern matches any character and the code resolves the first job
  of the data set.
\<close>

theorem find_missing_skills_dot_target:
  "find_missing_skills re
     [\<lparr>job_title = Some ''Data Analyst'', skill_requirements = Some ''sql, excel''\<rparr>]
     ''.'' (Some ''sql'')
   = Inr (Some (Some ''Data Analyst'', [''sql'', ''excel''], [''sql''], [''excel'']))
   \<and> \<not> str_in (lower ''.'') (lower ''Data Analyst'')
   \<and> resolve_job
        [\<lparr>job_title = Some ''Data Analyst'', skill_requirements = Some ''sql, excel''\<rparr>] ''.''
       = None"
  by (simp add: find_missing_skills_def select_rows_def title_equals_def title_contains_def
      re_compile_def re_special_def gap_of_row_def parse_skills_def strip_def is_space_def
      lower_def lower_char_def resolve_job_def Let_def)

subsection \<open>C4: when the error page is returned\<close>

text \<open>
  What the handler does: the error page is returned when no job is resolved and also
  when the resolved job has no required skill, since \<open>not required\<close> holds of the empty
  list as it does of \<open>None\<close>.
\<close>

lemma index_post_JobNotFound_iff:
  "index_post re jobs durs prof found target_job current_skills hours_per_day = Inr JobNotFound
   \<longleftrightarrow> find_missing_skills re jobs target_job (Some current_skills) = Inr None
       \<or> (\<exists>t matched missing.
            find_missing_skills re jobs target_job (Some current_skills)
              = Inr (Some (t, [], matched, missing)))"
  by (auto simp: index_post_def split: sum.splits option.splits prod.splits)

text \<open>
  On a resolved job with at least one required skill the handler renders the result
  page, provided the two recommenders return.
\<close>

lemma index_post_Result:
  assumes "find_missing_skills re jobs target_job (Some current_skills)
             = Inr (Some (t, required, matched, missing))"
    and "required \<noteq> []"
    and "suggest_professional_courses prof missing 4 = Inr pc"
    and "suggest_foundation_courses found missing 4 = Inr fc"
  shows "index_post re jobs durs prof found target_job current_skills hours_per_day =
           Inr (Result
             \<lparr>p_target_job = target_job, p_required = required, p_matched = matched,
              p_missing = missing,
              p_total_days = fst (calculate_total_duration durs missing hours_per_day),
              p_skill_hours = snd (calculate_total_duration durs missing hours_per_day),
              p_hours_per_day = hours_per_day,
              p_professional_courses = pc, p_foundation_courses = fc\<rparr>)"
  using assms by (simp add: index_post_def split: prod.splits)

text \<open>
  C4 says that the error page is returned only if the lookup fails at both steps. On a
  job whose "Skill Requirements" cell is empty (a missing value) or blank, the lookup
  finds the job at the exact-match step and the handler still returns the error page.
\<close>

theorem index_post_empty_requirements:
  "index_post re [\<lparr>job_title = Some ''Intern'', skill_requirements = None\<rparr>]
     durs prof found ''intern'' cur hpd = Inr JobNotFound
   \<and> index_post re [\<lparr>job_title = Some ''Intern'', skill_requirements = Some '' ''\<rparr>]
     durs prof found ''intern'' cur hpd = Inr JobNotFound
   \<and> find_missing_skills re [\<lparr>job_title = Some ''Intern'', skill_requirements = None\<rparr>]
       ''intern'' (Some cur) = Inr (Some (Some ''Intern'', [], [], []))
   \<and> resolve_job [\<lparr>job_title = Some ''Intern'', skill_requirements = None\<rparr>] ''intern''
       = Some \<lparr>job_title = Some ''Intern'', skill_requirements = None\<rparr>"
  by (simp add: index_post_def find_missing_skills_def select_rows_def title_equals_def
      gap_of_row_def parse_skills_def strip_def is_space_def
      lower_def lower_char_def resolve_job_def Let_def)

end
